theory Spec2Isabelle
  imports Complex_Main "HOL-Library.Log_Nat"
begin

section \<open>Thermochemical corrections of OER\_corrections.py\<close>

text \<open>
  The module computes three vibrational corrections of an adsorbate (zero-point energy,
  vibrational entropy, internal-energy variation) from a list of wavenumbers and a
  temperature. Its class \<open>Corrections\<close> validates the three constructor arguments,
  calls three static methods and prints a report.

  Numbers. The value of a float expression is modelled by the real number that exact
  arithmetic gives: the exponential and the logarithm have no floating-point result
  that a specification could fix, and the formulas of the specification are read the
  same way. The special input values \<open>inf\<close> and \<open>nan\<close> are left out. Two things are
  kept of the floating-point behaviour:
  \<^item> which exception is raised. NumPy's division by zero and logarithm of a
    non-positive number give \<open>inf\<close>, \<open>-inf\<close> or \<open>nan\<close> (with a warning, not an
    exception), and Python's own float division raises \<open>ZeroDivisionError\<close> when its
    divisor is the float zero;
  \<^item> the float that \<open>calculate_ZPE\<close> returns. It is computed with products and
    sums only, whose results IEEE 754 fixes, so this method is modelled a second time
    with the rounding of binary64: whether a larger frequency gives a larger result
    is decided by that rounding.
\<close>

subsection \<open>Module-level constants\<close>

text \<open>
  \<open>boltzmann_constant\<close>, \<open>planck_constant\<close> and \<open>speed_of_light\<close> are read from
  \<open>scipy.constants\<close> when the module is loaded; their numeric values are not part of
  the repository, so the model takes them as a parameter. \<open>gas_constant_R\<close> is
  defined by the module itself, as the Boltzmann constant.
\<close>

record constants =
  boltzmann_constant :: real
  planck_constant :: real
  speed_of_light :: real

definition gas_constant_R :: "constants \<Rightarrow> real" where
  "gas_constant_R K = boltzmann_constant K"

text \<open>The three constants are positive numbers in every release of the library.\<close>

definition physical :: "constants \<Rightarrow> bool" where
  "physical K = (0 < boltzmann_constant K \<and> 0 < planck_constant K \<and> 0 < speed_of_light K)"

text \<open>The CODATA 2018 values (eV/K, eV s, cm/s), used where a concrete instance is evaluated.\<close>

definition codata :: constants where
  "codata = \<lparr>boltzmann_constant = 8.617333262 / 10 ^ 5,
             planck_constant = 4.135667696 / 10 ^ 15,
             speed_of_light = 29979245800\<rparr>"

text \<open>The binary64 numbers nearest to the CODATA 2018 values.\<close>

definition codata_binary64 :: constants where
  "codata_binary64 =
     \<lparr>boltzmann_constant = 1589617412819787 / 2 ^ 64,
      planck_constant = 5242581637178899 / 2 ^ 100,
      speed_of_light = 29979245800\<rparr>"

subsection \<open>Binary64 arithmetic\<close>

text \<open>
  IEEE 754 defines the product and the sum of two floats exactly: the real result,
  rounded to the nearest binary64 number, ties to the even significand, and to an
  infinity beyond the largest finite number. A finite float is kept as the real number
  it denotes (the two zeros are one value). \<open>ilog2 x\<close> is the binary exponent of \<open>x\<close>;
  a binary64 number has 53 significant bits, and its exponent does not go below that of
  the subnormal numbers, so the spacing of the floats around \<open>x\<close> is \<open>2\<close> to the power
  \<open>quantum_exponent x\<close>, and \<open>rounded x\<close> is the float nearest to \<open>x\<close> (before overflow).
\<close>

datatype binary64 = Finite real | PlusInf | MinusInf | NaN

text \<open>The nearest integer, the even one of the two when they are equally near.\<close>

definition nearest_even :: "real \<Rightarrow> int" where
  "nearest_even y =
     (let f = \<lfloor>y\<rfloor> in
      if y - of_int f < 1 / 2 then f
      else if 1 / 2 < y - of_int f then f + 1
      else if even f then f else f + 1)"

definition ilog2 :: "real \<Rightarrow> int" where
  "ilog2 x =
     (if 1 \<le> \<bar>x\<bar> then int (floorlog 2 (nat \<lfloor>\<bar>x\<bar>\<rfloor>)) - 1
      else - int (floorlog 2 (nat (\<lceil>1 / \<bar>x\<bar>\<rceil> - 1))))"

definition quantum_exponent :: "real \<Rightarrow> int" where
  "quantum_exponent x = max (ilog2 x - 52) (- 1074)"

definition rounded :: "real \<Rightarrow> real" where
  "rounded x =
     (if x = 0 then 0
      else of_int (nearest_even (x / 2 powi quantum_exponent x)) * 2 powi quantum_exponent x)"

definition round_binary64 :: "real \<Rightarrow> binary64" where
  "round_binary64 x =
     (let r = rounded x in
      if 2 ^ 1024 \<le> r then PlusInf else if r \<le> - (2 ^ 1024) then MinusInf else Finite r)"

text \<open>Python's \<open><=\<close> on floats: every comparison with \<open>nan\<close> is false.\<close>

fun le64 :: "binary64 \<Rightarrow> binary64 \<Rightarrow> bool" where
  "le64 NaN y = False"
| "le64 x NaN = False"
| "le64 MinusInf y = True"
| "le64 x PlusInf = True"
| "le64 (Finite a) (Finite b) = (a \<le> b)"
| "le64 PlusInf y = False"
| "le64 x MinusInf = False"

fun mul64 :: "binary64 \<Rightarrow> binary64 \<Rightarrow> binary64" where
  "mul64 (Finite a) (Finite b) = round_binary64 (a * b)"
| "mul64 NaN y = NaN"
| "mul64 x NaN = NaN"
| "mul64 (Finite a) PlusInf = (if a = 0 then NaN else if 0 < a then PlusInf else MinusInf)"
| "mul64 (Finite a) MinusInf = (if a = 0 then NaN else if 0 < a then MinusInf else PlusInf)"
| "mul64 PlusInf (Finite b) = (if b = 0 then NaN else if 0 < b then PlusInf else MinusInf)"
| "mul64 MinusInf (Finite b) = (if b = 0 then NaN else if 0 < b then MinusInf else PlusInf)"
| "mul64 PlusInf PlusInf = PlusInf"
| "mul64 PlusInf MinusInf = MinusInf"
| "mul64 MinusInf PlusInf = MinusInf"
| "mul64 MinusInf MinusInf = PlusInf"

fun add64 :: "binary64 \<Rightarrow> binary64 \<Rightarrow> binary64" where
  "add64 (Finite a) (Finite b) = round_binary64 (a + b)"
| "add64 NaN y = NaN"
| "add64 x NaN = NaN"
| "add64 PlusInf MinusInf = NaN"
| "add64 MinusInf PlusInf = NaN"
| "add64 PlusInf y = PlusInf"
| "add64 x PlusInf = PlusInf"
| "add64 MinusInf y = MinusInf"
| "add64 x MinusInf = MinusInf"

text \<open>
  \<open>np.sum\<close>, adding from the left, starting from \<open>0.0\<close>. (NumPy adds an array of eight
  or more elements in blocks; up to two elements there is one addition, whatever the
  order.)
\<close>

definition sum64 :: "binary64 list \<Rightarrow> binary64" where
  "sum64 xs = foldl add64 (Finite 0) xs"


definition smallest_positive_binary64 :: real where
  "smallest_positive_binary64 = 1 / 2 ^ 1074"

subsection \<open>Python values, errors, results of NumPy arithmetic\<close>

type_synonym addr = nat

text \<open>
  The constructor inspects the run-time type of its arguments, so they are values of a
  universal type. A list is a mutable object: the value is a reference into the heap,
  which holds the elements. Strings, numbers and tuples are immutable.
\<close>

datatype pyval =
    PyNone
  | PyBool bool
  | PyInt int
  | PyFloat real
  | PyStr string
  | PyList addr
  | PyTuple "pyval list"

text \<open>
  The message of an exception is a literal, except for the f-string that formats the
  offending frequency; the formatted element is kept as a value.
\<close>

datatype message = Literal string | InvalidElement pyval

datatype error = TypeError message | ValueError message | ZeroDivisionError

fun is_TypeError :: "error \<Rightarrow> bool" where
  "is_TypeError (TypeError m) = True"
| "is_TypeError (ValueError m) = False"
| "is_TypeError ZeroDivisionError = False"

fun is_ValueError :: "error \<Rightarrow> bool" where
  "is_ValueError (TypeError m) = False"
| "is_ValueError (ValueError m) = True"
| "is_ValueError ZeroDivisionError = False"

text \<open>
  A \<open>numpy.float64\<close> result: a number, or one of \<open>inf\<close>, \<open>-inf\<close>, \<open>nan\<close>. The three are
  not told apart: once one of them appears, the operations that the module applies
  afterwards (subtraction, summation, multiplication) keep the result among them.
\<close>

datatype npfloat = Num real | NonFinite

fun np_add :: "npfloat \<Rightarrow> npfloat \<Rightarrow> npfloat" where
  "np_add (Num a) (Num b) = Num (a + b)"
| "np_add (Num a) NonFinite = NonFinite"
| "np_add NonFinite b = NonFinite"

fun np_sub :: "npfloat \<Rightarrow> npfloat \<Rightarrow> npfloat" where
  "np_sub (Num a) (Num b) = Num (a - b)"
| "np_sub (Num a) NonFinite = NonFinite"
| "np_sub NonFinite b = NonFinite"

fun np_mul :: "npfloat \<Rightarrow> npfloat \<Rightarrow> npfloat" where
  "np_mul (Num a) (Num b) = Num (a * b)"
| "np_mul (Num a) NonFinite = NonFinite"
| "np_mul NonFinite b = NonFinite"

text \<open>Division with a \<open>numpy.float64\<close> operand: no exception, \<open>x / 0\<close> is infinite or \<open>nan\<close>.\<close>

definition np_div :: "real \<Rightarrow> real \<Rightarrow> npfloat" where
  "np_div a b = (if b = 0 then NonFinite else Num (a / b))"

text \<open>\<open>np.log\<close>: \<open>-inf\<close> at zero and \<open>nan\<close> below.\<close>

definition np_log :: "real \<Rightarrow> npfloat" where
  "np_log a = (if 0 < a then Num (ln a) else NonFinite)"

text \<open>\<open>np.sum\<close> of a list: the elements are added from the left, starting from \<open>0.0\<close>.\<close>

definition np_sum :: "npfloat list \<Rightarrow> npfloat" where
  "np_sum xs = foldl np_add (Num 0) xs"

text \<open>
  Division of two Python floats raises when the divisor is the float \<open>0.0\<close>. The divisor
  is given by its exact value \<open>b\<close>; as a float it is \<open>rounded b\<close>, which is zero also
  for a non-zero \<open>b\<close> of magnitude up to \<open>2\<close> to the power \<open>-1075\<close> (underflow).
\<close>

definition py_div :: "real \<Rightarrow> real \<Rightarrow> error + real" where
  "py_div a b = (if rounded b = 0 then Inl ZeroDivisionError else Inr (a / b))"

text \<open>A list comprehension whose element expression may raise: the first exception ends it.\<close>

fun comprehension :: "('a \<Rightarrow> error + 'b) \<Rightarrow> 'a list \<Rightarrow> error + 'b list" where
  "comprehension f [] = Inr []"
| "comprehension f (x # xs) =
     (case f x of
        Inl e \<Rightarrow> Inl e
      | Inr y \<Rightarrow> (case comprehension f xs of Inl e \<Rightarrow> Inl e | Inr ys \<Rightarrow> Inr (y # ys)))"

subsection \<open>The three static methods\<close>

text \<open>
  \<^verbatim>\<open>return 0.5*np.sum([planck_constant*speed_of_light*freq for freq in frequency_list])\<close>
\<close>

definition calculate_ZPE :: "constants \<Rightarrow> real list \<Rightarrow> npfloat" where
  "calculate_ZPE K frequency_list =
     np_mul (Num 0.5)
       (np_sum (map (\<lambda>freq. Num (planck_constant K * speed_of_light K * freq)) frequency_list))"

text \<open>
  The same method with the operations of binary64: it uses products and sums only, so
  the float that it returns is determined. The constants and the frequencies are the
  real numbers that the given floats denote.
\<close>

definition calculate_ZPE_binary64 :: "constants \<Rightarrow> real list \<Rightarrow> binary64" where
  "calculate_ZPE_binary64 K frequency_list =
     mul64 (Finite (1 / 2))
       (sum64 (map (\<lambda>freq. mul64 (mul64 (Finite (planck_constant K)) (Finite (speed_of_light K)))
                                  (Finite freq))
                   frequency_list))"

text \<open>
  \<^verbatim>\<open>hnu_over_kt = lambda f: planck_constant*speed_of_light*f/(boltzmann_constant*temperature)\<close>
\<close>

definition hnu_over_kt :: "constants \<Rightarrow> real \<Rightarrow> real \<Rightarrow> error + real" where
  "hnu_over_kt K temperature f =
     py_div (planck_constant K * speed_of_light K * f) (boltzmann_constant K * temperature)"

text \<open>
  The lambda returns when its divisor, the float product \<open>k\<^sub>B T\<close>, is not zero. With the
  Boltzmann constant in eV/K that is every temperature from about \<open>2.9e-320\<close> K upwards.
\<close>

definition kT_nonzero :: "constants \<Rightarrow> real \<Rightarrow> bool" where
  "kT_nonzero K temperature = (rounded (boltzmann_constant K * temperature) \<noteq> 0)"

text \<open>
  One element of the comprehension of \<open>calculate_Svib\<close>:
  \<^verbatim>\<open>((planck_constant*speed_of_light*frequency)
     /(boltzmann_constant*temperature*(np.exp(hnu_over_kt(frequency)) - 1)))
   - np.log(1 - np.exp(-hnu_over_kt(frequency)))\<close>
\<close>

definition Svib_term :: "constants \<Rightarrow> real \<Rightarrow> real \<Rightarrow> error + npfloat" where
  "Svib_term K temperature frequency =
     (case hnu_over_kt K temperature frequency of
        Inl e \<Rightarrow> Inl e
      | Inr x \<Rightarrow>
          (case hnu_over_kt K temperature frequency of
             Inl e \<Rightarrow> Inl e
           | Inr x' \<Rightarrow>
               Inr (np_sub
                     (np_div (planck_constant K * speed_of_light K * frequency)
                             (boltzmann_constant K * temperature * (exp x - 1)))
                     (np_log (1 - exp (- x'))))))"

definition calculate_Svib :: "constants \<Rightarrow> real list \<Rightarrow> real \<Rightarrow> error + npfloat" where
  "calculate_Svib K frequency_list temperature =
     (case comprehension (Svib_term K temperature) frequency_list of
        Inl e \<Rightarrow> Inl e
      | Inr terms \<Rightarrow> Inr (np_mul (Num (gas_constant_R K)) (np_sum terms)))"

text \<open>
  One element of the comprehension of \<open>calculate_deltaU\<close>:
  \<^verbatim>\<open>(planck_constant*speed_of_light*frequency)
     /(boltzmann_constant*(np.exp(hnu_over_kt(frequency)) - 1))\<close>
\<close>

definition deltaU_term :: "constants \<Rightarrow> real \<Rightarrow> real \<Rightarrow> error + npfloat" where
  "deltaU_term K temperature frequency =
     (case hnu_over_kt K temperature frequency of
        Inl e \<Rightarrow> Inl e
      | Inr x \<Rightarrow>
          Inr (np_div (planck_constant K * speed_of_light K * frequency)
                      (boltzmann_constant K * (exp x - 1))))"

definition calculate_deltaU :: "constants \<Rightarrow> real list \<Rightarrow> real \<Rightarrow> error + npfloat" where
  "calculate_deltaU K frequency_list temperature =
     (case comprehension (deltaU_term K temperature) frequency_list of
        Inl e \<Rightarrow> Inl e
      | Inr terms \<Rightarrow> Inr (np_mul (Num (gas_constant_R K)) (np_sum terms)))"

subsection \<open>The constructor\<close>

text \<open>
  The state a call can touch: the heap of list objects and the standard output. A printed
  line is kept as the values that the f-string formats.
\<close>

datatype printed =
    Specimen string
  | Values npfloat npfloat npfloat npfloat
  | Total_correction npfloat

record state =
  heap :: "addr \<Rightarrow> pyval list"
  stdout :: "printed list"

text \<open>The object. \<open>self.frequencies\<close> is the caller's list itself, not a copy.\<close>

record Corrections =
  name :: string
  frequencies :: addr
  temperature :: real
  ZPE :: npfloat
  S_vib :: npfloat
  deltaU :: npfloat

text \<open>
  \<^verbatim>\<open>for freq in frequencies:
      if not isinstance(freq, float):
          raise TypeError(f"... Invalid element: {freq}.")\<close>
  The loop leaves at the first element that is not a float. When it ends normally every
  element is a float, and the model hands their values on to the static methods.
\<close>

fun check_elements :: "pyval list \<Rightarrow> error + real list" where
  "check_elements [] = Inr []"
| "check_elements (freq # rest) =
     (case freq of
        PyFloat f \<Rightarrow>
          (case check_elements rest of Inl e \<Rightarrow> Inl e | Inr fs \<Rightarrow> Inr (f # fs))
      | _ \<Rightarrow> Inl (TypeError (InvalidElement freq)))"

text \<open>Lines 33 to 41: the assignments, the three calls and the three \<open>print\<close>s.\<close>

definition compute ::
  "constants \<Rightarrow> string \<Rightarrow> addr \<Rightarrow> real list \<Rightarrow> real \<Rightarrow> state \<Rightarrow> (error + Corrections) \<times> state" where
  "compute K n a fs T s =
     (let zpe = calculate_ZPE K fs in
      case calculate_Svib K fs T of
        Inl e \<Rightarrow> (Inl e, s)
      | Inr svib \<Rightarrow>
          (case calculate_deltaU K fs T of
             Inl e \<Rightarrow> (Inl e, s)
           | Inr du \<Rightarrow>
               (Inr \<lparr>name = n, frequencies = a, temperature = T,
                     ZPE = zpe, S_vib = svib, deltaU = du\<rparr>,
                s\<lparr>stdout := stdout s @
                   [Specimen n,
                    Values zpe svib (np_mul (Num T) svib) du,
                    Total_correction (np_add (np_sub zpe (np_mul (Num T) svib)) du)]\<rparr>)))"

text \<open>
  \<open>__init__\<close>, lines 17 to 41. \<open>isinstance(x, str)\<close>, \<open>isinstance(x, List)\<close> (which
  \<open>typing.List\<close> answers as \<open>isinstance(x, list)\<close>) and \<open>isinstance(x, float)\<close> are
  the constructor patterns; every other constructor falls to the \<open>raise\<close>.
\<close>

definition init :: "constants \<Rightarrow> pyval \<Rightarrow> pyval \<Rightarrow> pyval \<Rightarrow> state \<Rightarrow> (error + Corrections) \<times> state" where
  "init K adsorbate_name freqs temp s =
     (case adsorbate_name of
        PyStr n \<Rightarrow>
          if length n = 0 then
            (Inl (ValueError (Literal ''The name of the adsorbate must contain at least one character.'')), s)
          else
            (case freqs of
               PyList a \<Rightarrow>
                 if length (heap s a) = 0 then
                   (Inl (ValueError (Literal ''The list of frequencies must contain at least one value.'')), s)
                 else
                   (case check_elements (heap s a) of
                      Inl e \<Rightarrow> (Inl e, s)
                    | Inr fs \<Rightarrow>
                        (case temp of
                           PyFloat T \<Rightarrow>
                             if T \<le> 0 then
                               (Inl (ValueError (Literal ''Temperature must be a positive value.'')), s)
                             else compute K n a fs T s
                         | _ \<Rightarrow> (Inl (TypeError (Literal ''Temperature must be a floating point value.'')), s)))
             | _ \<Rightarrow> (Inl (TypeError (Literal ''Frequencies must be of type List.'')), s))
      | _ \<Rightarrow> (Inl (TypeError (Literal ''The name of the adsorbed specimen must be a string.'')), s))"

section \<open>The formulas and the request of the specification\<close>

text \<open>
  The dimensionless ratio \<open>x\<^sub>i = h c \<nu>\<^sub>i / (k\<^sub>B T)\<close> of sections 4.3 and 4.4.
\<close>

definition x_ratio :: "constants \<Rightarrow> real \<Rightarrow> real \<Rightarrow> real" where
  "x_ratio K T \<nu> = planck_constant K * speed_of_light K * \<nu> / (boltzmann_constant K * T)"

text \<open>
  Section 4.3: \<open>S_vib = k\<^sub>B \<Sum>\<^sub>i [x\<^sub>i / (e\<^sup>x\<^sup>i - 1) - ln (1 - e\<^sup>-\<^sup>x\<^sup>i)]\<close>, first with the
  singular cases of the floating-point operations (a zero divisor, a logarithm of a
  non-positive number), then as a real number.
\<close>

definition spec_Svib_term :: "real \<Rightarrow> npfloat" where
  "spec_Svib_term x = np_sub (np_div x (exp x - 1)) (np_log (1 - exp (- x)))"

definition spec_Svib :: "constants \<Rightarrow> real list \<Rightarrow> real \<Rightarrow> npfloat" where
  "spec_Svib K fs T =
     np_mul (Num (boltzmann_constant K)) (np_sum (map (\<lambda>\<nu>. spec_Svib_term (x_ratio K T \<nu>)) fs))"



text \<open>
  The same sum without the prefactor: the internal energy of the harmonic oscillators,
  \<open>\<Sum>\<^sub>i h c \<nu>\<^sub>i / (e\<^sup>x\<^sup>i - 1)\<close>.
\<close>

definition oscillator_energy :: "constants \<Rightarrow> real list \<Rightarrow> real \<Rightarrow> npfloat" where
  "oscillator_energy K fs T =
     np_sum (map (\<lambda>\<nu>. np_div (planck_constant K * speed_of_light K * \<nu>)
                              (exp (x_ratio K T \<nu>) - 1)) fs)"



text \<open>
  A valid request (section 3): a name of at least one character, a list object holding
  at least one element, all of them floats, and a positive temperature.
\<close>

definition valid_request :: "state \<Rightarrow> string \<Rightarrow> addr \<Rightarrow> real list \<Rightarrow> real \<Rightarrow> bool" where
  "valid_request s n a fs T = (n \<noteq> [] \<and> fs \<noteq> [] \<and> heap s a = map PyFloat fs \<and> 0 < T)"

text \<open>A state for concrete instances: every list reference holds the given elements.\<close>

definition state_with :: "pyval list \<Rightarrow> state" where
  "state_with xs = \<lparr>heap = (\<lambda>a. xs), stdout = []\<rparr>"

text \<open>
  Section 4.1 lists the checks of the validator in the order in which they are made;
  each element of the list has a check of its own, in list order. A check fails on its
  own terms: a length or a value is only looked at on a value of the right type.
\<close>

datatype check =
    Name_type
  | Name_length
  | Container_type
  | Container_empty
  | Element_type pyval
  | Temperature_type
  | Temperature_value

fun isinstance_str :: "pyval \<Rightarrow> bool" where
  "isinstance_str (PyStr n) = True"
| "isinstance_str _ = False"

fun isinstance_List :: "pyval \<Rightarrow> bool" where
  "isinstance_List (PyList a) = True"
| "isinstance_List _ = False"

fun isinstance_float :: "pyval \<Rightarrow> bool" where
  "isinstance_float (PyFloat f) = True"
| "isinstance_float _ = False"

fun elements :: "state \<Rightarrow> pyval \<Rightarrow> pyval list" where
  "elements s (PyList a) = heap s a"
| "elements s _ = []"

fun fails :: "state \<Rightarrow> pyval \<Rightarrow> pyval \<Rightarrow> pyval \<Rightarrow> check \<Rightarrow> bool" where
  "fails s nm fr tp Name_type = (\<not> isinstance_str nm)"
| "fails s nm fr tp Name_length = (nm = PyStr [])"
| "fails s nm fr tp Container_type = (\<not> isinstance_List fr)"
| "fails s nm fr tp Container_empty = (isinstance_List fr \<and> elements s fr = [])"
| "fails s nm fr tp (Element_type v) = (\<not> isinstance_float v)"
| "fails s nm fr tp Temperature_type = (\<not> isinstance_float tp)"
| "fails s nm fr tp Temperature_value = (case tp of PyFloat T \<Rightarrow> T \<le> 0 | _ \<Rightarrow> False)"

text \<open>The error kind of section 7 with the message of the source, per check.\<close>

fun raised :: "check \<Rightarrow> error" where
  "raised Name_type = TypeError (Literal ''The name of the adsorbed specimen must be a string.'')"
| "raised Name_length = ValueError (Literal ''The name of the adsorbate must contain at least one character.'')"
| "raised Container_type = TypeError (Literal ''Frequencies must be of type List.'')"
| "raised Container_empty = ValueError (Literal ''The list of frequencies must contain at least one value.'')"
| "raised (Element_type v) = TypeError (InvalidElement v)"
| "raised Temperature_type = TypeError (Literal ''Temperature must be a floating point value.'')"
| "raised Temperature_value = ValueError (Literal ''Temperature must be a positive value.'')"

definition checks_in_order :: "state \<Rightarrow> pyval \<Rightarrow> check list" where
  "checks_in_order s fr =
     [Name_type, Name_length, Container_type, Container_empty]
     @ map Element_type (elements s fr)
     @ [Temperature_type, Temperature_value]"

definition first_failing :: "state \<Rightarrow> pyval \<Rightarrow> pyval \<Rightarrow> pyval \<Rightarrow> check option" where
  "first_failing s nm fr tp = find (fails s nm fr tp) (checks_in_order s fr)"

section \<open>Properties\<close>

subsection \<open>Rounding to binary64\<close>




lemma nearest_even_eqI:
  assumes "\<bar>y - of_int n\<bar> < 1 / 2"
  shows "nearest_even y = n"
proof -
  from assms have "\<lfloor>y\<rfloor> = n \<or> \<lfloor>y\<rfloor> = n - 1" by linarith
  then show ?thesis
  proof
    assume f: "\<lfloor>y\<rfloor> = n"
    with assms have "y - of_int \<lfloor>y\<rfloor> < 1 / 2" by linarith
    then show ?thesis by (simp add: nearest_even_def f)
  next
    assume f: "\<lfloor>y\<rfloor> = n - 1"
    from assms have "1 / 2 < y - (of_int n - 1)" by linarith
    then have "1 / 2 < y - of_int \<lfloor>y\<rfloor>" by (simp add: f)
    then show ?thesis by (simp add: nearest_even_def f)
  qed
qed

lemma ilog2_bounds:
  assumes "x \<noteq> 0"
  shows "2 powi ilog2 x \<le> \<bar>x\<bar>" and "\<bar>x\<bar> < 2 powi (ilog2 x + 1)"
proof -
  have "2 powi ilog2 x \<le> \<bar>x\<bar> \<and> \<bar>x\<bar> < 2 powi (ilog2 x + 1)"
  proof (cases "1 \<le> \<bar>x\<bar>")
    case True
    define n where "n = nat \<lfloor>\<bar>x\<bar>\<rfloor>"
    define l where "l = floorlog 2 n"
    have n: "0 < n" using True by (simp add: n_def)
    from floorlog_bounds [OF n, of 2] have b: "2 ^ (l - 1) \<le> n" "n < 2 ^ l"
      by (simp_all add: l_def)
    have l: "0 < l" using b(2) n by (cases l) simp_all
    have i: "ilog2 x = int l - 1" using True by (simp add: ilog2_def n_def l_def)
    have nx: "real n \<le> \<bar>x\<bar>" "\<bar>x\<bar> < real n + 1"
      using True by (simp_all add: n_def)
    have p1: "(2::real) powi (int l - 1) = 2 ^ (l - 1)"
      using l by (simp add: power_int_def nat_diff_distrib)
    have "real (2 ^ (l - 1)) \<le> real n" using b(1) by (rule of_nat_mono)
    then have "(2::real) ^ (l - 1) \<le> real n" by simp
    with nx(1) have "(2::real) ^ (l - 1) \<le> \<bar>x\<bar>" by linarith
    then have 1: "2 powi ilog2 x \<le> \<bar>x\<bar>" by (simp only: i p1)
    from b(2) have "Suc n \<le> 2 ^ l" by simp
    then have "real (Suc n) \<le> real (2 ^ l)" by (rule of_nat_mono)
    then have "real n + 1 \<le> (2::real) ^ l" by simp
    with nx(2) have "\<bar>x\<bar> < (2::real) ^ l" by linarith
    moreover have "(2::real) powi (int l - 1 + 1) = 2 ^ l" by simp
    ultimately have 2: "\<bar>x\<bar> < 2 powi (ilog2 x + 1)" by (simp only: i)
    from 1 2 show ?thesis ..
  next
    case False
    define y where "y = 1 / \<bar>x\<bar>"
    have y: "1 < y" using False assms by (simp add: y_def)
    define n where "n = nat (\<lceil>y\<rceil> - 1)"
    define l where "l = floorlog 2 n"
    have c: "2 \<le> \<lceil>y\<rceil>" using y by linarith
    have n: "0 < n" using c by (simp add: n_def)
    from floorlog_bounds [OF n, of 2] have b: "2 ^ (l - 1) \<le> n" "n < 2 ^ l"
      by (simp_all add: l_def)
    have l: "0 < l" using b(2) n by (cases l) simp_all
    have i: "ilog2 x = - int l" using False by (simp add: ilog2_def n_def l_def y_def)
    have "real n = of_int (\<lceil>y\<rceil> - 1)" using c by (simp add: n_def)
    then have ny: "real n < y" "y \<le> real n + 1" by (simp_all; linarith)+
    have "real (2 ^ (l - 1)) \<le> real n" using b(1) by (rule of_nat_mono)
    then have "(2::real) ^ (l - 1) \<le> real n" by simp
    with ny(1) have lo: "(2::real) ^ (l - 1) < y" by linarith
    from b(2) have "Suc n \<le> 2 ^ l" by simp
    then have "real (Suc n) \<le> real (2 ^ l)" by (rule of_nat_mono)
    then have "real n + 1 \<le> (2::real) ^ l" by simp
    with ny(2) have hi: "y \<le> (2::real) ^ l" by linarith
    have xy: "\<bar>x\<bar> = 1 / y" using assms by (simp add: y_def)
    have "(2::real) powi (- int l) = 1 / 2 ^ l" by (simp add: power_int_minus_divide)
    also have "\<dots> \<le> 1 / y" using hi y by (simp add: frac_le)
    finally have 1: "2 powi ilog2 x \<le> \<bar>x\<bar>" by (simp only: i xy)
    have p2: "(2::real) powi (- int l + 1) = 1 / 2 ^ (l - 1)"
    proof -
      have "- int l + 1 = - int (l - 1)" using l by simp
      then show ?thesis by (simp only: power_int_minus_divide power_int_of_nat)
    qed
    have "0 < (2::real) ^ (l - 1)" by simp
    with lo have "1 / y < 1 / 2 ^ (l - 1)" by (simp add: frac_less2)
    then have 2: "\<bar>x\<bar> < 2 powi (ilog2 x + 1)" by (simp only: i xy p2)
    from 1 2 show ?thesis ..
  qed
  then show "2 powi ilog2 x \<le> \<bar>x\<bar>" and "\<bar>x\<bar> < 2 powi (ilog2 x + 1)" by simp_all
qed

lemma ilog2_eqI:
  assumes "2 powi k \<le> \<bar>x\<bar>" "\<bar>x\<bar> < 2 powi (k + 1)"
  shows "ilog2 x = k"
proof -
  have "0 < (2::real) powi k" by simp
  with assms(1) have "0 < \<bar>x\<bar>" by linarith
  then have x: "x \<noteq> 0" by simp
  note b = ilog2_bounds [OF x]
  have "\<not> ilog2 x < k"
  proof
    assume "ilog2 x < k"
    then have "(2::real) powi (ilog2 x + 1) \<le> 2 powi k"
      by (intro power_int_increasing) simp_all
    with b(2) assms(1) show False by linarith
  qed
  moreover have "\<not> k < ilog2 x"
  proof
    assume "k < ilog2 x"
    then have "(2::real) powi (k + 1) \<le> 2 powi ilog2 x"
      by (intro power_int_increasing) simp_all
    with b(1) assms(2) show False by linarith
  qed
  ultimately show ?thesis by linarith
qed




lemma quantum_exponent_minus [simp]: "quantum_exponent (- x) = quantum_exponent x"
  by (simp add: quantum_exponent_def ilog2_def)










lemma rounded_eqI:
  assumes "2 powi k \<le> \<bar>x\<bar>" "\<bar>x\<bar> < 2 powi (k + 1)" "e = max (k - 52) (- 1074)"
    and "\<bar>x / 2 powi e - of_int n\<bar> < 1 / 2"
  shows "rounded x = of_int n * 2 powi e"
proof -
  have "0 < (2::real) powi k" by simp
  with assms(1) have "0 < \<bar>x\<bar>" by linarith
  then have x: "x \<noteq> 0" by simp
  have "quantum_exponent x = e"
    by (simp add: quantum_exponent_def ilog2_eqI [OF assms(1,2)] assms(3))
  then show ?thesis
    using x nearest_even_eqI [OF assms(4)] by (simp add: rounded_def)
qed


subsection \<open>The operations of binary64 are monotone\<close>

lemma round_binary64_not_NaN [simp]: "round_binary64 x \<noteq> NaN"
  by (simp add: round_binary64_def Let_def)





lemma le64_MinusInf_round [simp]: "le64 MinusInf (round_binary64 x)"
  by (simp add: round_binary64_def Let_def)

lemma le64_round_PlusInf [simp]: "le64 (round_binary64 x) PlusInf"
  by (simp add: round_binary64_def Let_def)







subsection \<open>The floating-point value of calculate\_ZPE\<close>


lemma rounded_zero [simp]: "rounded 0 = 0"
  by (simp add: rounded_def)






subsection \<open>A float is rounded to itself\<close>








subsection \<open>Summation and the comprehension\<close>

lemma foldl_np_add_Num: "foldl np_add (Num a) (map Num xs) = Num (a + sum_list xs)"
  by (induction xs arbitrary: a) (simp_all add: add.assoc)

lemma np_sum_map_Num: "np_sum (map (\<lambda>x. Num (g x)) xs) = Num (\<Sum>x\<leftarrow>xs. g x)"
  using foldl_np_add_Num [of 0 "map g xs"] by (simp add: np_sum_def comp_def)

lemma np_mul_np_add: "np_mul (Num k) (np_add a b) = np_add (np_mul (Num k) a) (np_mul (Num k) b)"
  by (cases a; cases b) (simp_all add: distrib_left)

lemma np_mul_foldl:
  "np_mul (Num k) (foldl np_add acc xs) = foldl np_add (np_mul (Num k) acc) (map (np_mul (Num k)) xs)"
  by (induction xs arbitrary: acc) (simp_all add: np_mul_np_add)

lemma np_mul_np_sum: "np_mul (Num k) (np_sum xs) = np_sum (map (np_mul (Num k)) xs)"
  by (simp add: np_sum_def np_mul_foldl)

lemma comprehension_Inr:
  "(\<And>x. x \<in> set xs \<Longrightarrow> f x = Inr (g x)) \<Longrightarrow> comprehension f xs = Inr (map g xs)"
  by (induction xs) simp_all

subsection \<open>The static methods in closed form\<close>

lemma calculate_ZPE_eq:
  "calculate_ZPE K fs = Num (0.5 * (\<Sum>\<nu>\<leftarrow>fs. planck_constant K * speed_of_light K * \<nu>))"
  by (simp add: calculate_ZPE_def np_sum_map_Num)

lemma kT_nonzero_D: "kT_nonzero K T \<Longrightarrow> boltzmann_constant K * T \<noteq> 0"
  by (auto simp: kT_nonzero_def)

lemma hnu_over_kt_Inr:
  "kT_nonzero K T \<Longrightarrow>
   hnu_over_kt K T \<nu> = Inr (planck_constant K * speed_of_light K * \<nu> / (boltzmann_constant K * T))"
  by (simp add: hnu_over_kt_def py_div_def kT_nonzero_def)

lemma hnu_over_kt_Inl:
  "\<not> kT_nonzero K T \<Longrightarrow> hnu_over_kt K T \<nu> = Inl ZeroDivisionError"
  by (simp add: hnu_over_kt_def py_div_def kT_nonzero_def)

lemma Svib_term_Inr:
  assumes "kT_nonzero K T"
  shows "Svib_term K T \<nu> =
    Inr (np_sub
          (np_div (planck_constant K * speed_of_light K * \<nu>)
                  (boltzmann_constant K * T * (exp (x_ratio K T \<nu>) - 1)))
          (np_log (1 - exp (- x_ratio K T \<nu>))))"
  by (simp add: Svib_term_def hnu_over_kt_Inr [OF assms] x_ratio_def)

lemma Svib_term_spec:
  assumes "kT_nonzero K T"
  shows "Svib_term K T \<nu> = Inr (spec_Svib_term (x_ratio K T \<nu>))"
proof -
  have "np_div (planck_constant K * speed_of_light K * \<nu>)
               (boltzmann_constant K * T * (exp (x_ratio K T \<nu>) - 1))
        = np_div (x_ratio K T \<nu>) (exp (x_ratio K T \<nu>) - 1)"
    using kT_nonzero_D [OF assms] by (simp add: np_div_def x_ratio_def)
  then show ?thesis
    by (simp add: Svib_term_Inr [OF assms] spec_Svib_term_def)
qed

lemma calculate_Svib_spec:
  assumes "kT_nonzero K T"
  shows "calculate_Svib K fs T = Inr (spec_Svib K fs T)"
proof -
  have "comprehension (Svib_term K T) fs = Inr (map (\<lambda>\<nu>. spec_Svib_term (x_ratio K T \<nu>)) fs)"
    by (rule comprehension_Inr) (rule Svib_term_spec [OF assms])
  then show ?thesis
    by (simp add: calculate_Svib_def spec_Svib_def gas_constant_R_def)
qed




lemma deltaU_term_Inr:
  assumes "kT_nonzero K T"
  shows "deltaU_term K T \<nu> =
    Inr (np_div (planck_constant K * speed_of_light K * \<nu>)
                (boltzmann_constant K * (exp (x_ratio K T \<nu>) - 1)))"
  by (simp add: deltaU_term_def hnu_over_kt_Inr [OF assms] x_ratio_def)

lemma calculate_deltaU_Inr:
  assumes "kT_nonzero K T"
  shows "calculate_deltaU K fs T =
    Inr (np_mul (Num (boltzmann_constant K))
          (np_sum (map (\<lambda>\<nu>. np_div (planck_constant K * speed_of_light K * \<nu>)
                                     (boltzmann_constant K * (exp (x_ratio K T \<nu>) - 1))) fs)))"
proof -
  have "comprehension (deltaU_term K T) fs =
        Inr (map (\<lambda>\<nu>. np_div (planck_constant K * speed_of_light K * \<nu>)
                               (boltzmann_constant K * (exp (x_ratio K T \<nu>) - 1))) fs)"
    by (rule comprehension_Inr) (rule deltaU_term_Inr [OF assms])
  then show ?thesis
    by (simp add: calculate_deltaU_def gas_constant_R_def)
qed

lemma np_mul_np_div_cancel: "k \<noteq> 0 \<Longrightarrow> np_mul (Num k) (np_div a (k * b)) = np_div a b"
  by (simp add: np_div_def)

lemma calculate_deltaU_oscillator:
  assumes "kT_nonzero K T"
  shows "calculate_deltaU K fs T = Inr (oscillator_energy K fs T)"
proof -
  from kT_nonzero_D [OF assms] have k: "boltzmann_constant K \<noteq> 0" by auto
  show ?thesis
    unfolding calculate_deltaU_Inr [OF assms] oscillator_energy_def np_mul_np_sum
    by (simp add: comp_def np_mul_np_div_cancel [OF k])
qed



subsection \<open>The constructor on a valid request\<close>

lemma check_elements_floats: "check_elements (map PyFloat fs) = Inr fs"
  by (induction fs) simp_all

lemma init_valid_request:
  assumes "valid_request s n a fs T"
  shows "init K (PyStr n) (PyList a) (PyFloat T) s = compute K n a fs T s"
  using assms by (simp add: init_def valid_request_def check_elements_floats)

lemma compute_Inr:
  assumes "kT_nonzero K T"
  shows "compute K n a fs T s =
    (Inr \<lparr>name = n, frequencies = a, temperature = T,
          ZPE = calculate_ZPE K fs, S_vib = spec_Svib K fs T, deltaU = oscillator_energy K fs T\<rparr>,
     s\<lparr>stdout := stdout s @
        [Specimen n,
         Values (calculate_ZPE K fs) (spec_Svib K fs T) (np_mul (Num T) (spec_Svib K fs T))
                (oscillator_energy K fs T),
         Total_correction (np_add (np_sub (calculate_ZPE K fs) (np_mul (Num T) (spec_Svib K fs T)))
                       (oscillator_energy K fs T))]\<rparr>)"
  by (simp add: compute_def Let_def calculate_Svib_spec [OF assms] calculate_deltaU_oscillator [OF assms])

lemma init_valid_request_Inr:
  assumes "kT_nonzero K T" "valid_request s n a fs T"
  shows "\<exists>s'. init K (PyStr n) (PyList a) (PyFloat T) s =
    (Inr \<lparr>name = n, frequencies = a, temperature = T,
          ZPE = calculate_ZPE K fs, S_vib = spec_Svib K fs T, deltaU = oscillator_energy K fs T\<rparr>, s')"
proof -
  show ?thesis
    by (simp add: init_valid_request [OF assms(2)] compute_Inr [OF assms(1)])
qed

lemma sum_list_update_real:
  "i < length xs \<Longrightarrow> sum_list (xs[i := v]) = sum_list xs + (v - xs ! i)" for v :: real
proof (induction xs arbitrary: i)
  case Nil
  then show ?case by simp
next
  case (Cons x xs)
  then show ?case by (cases i) simp_all
qed







subsection \<open>The outcomes of the constructor\<close>

lemma comprehension_Inl_D:
  "comprehension f xs = Inl e \<Longrightarrow> \<exists>x\<in>set xs. f x = Inl e"
  by (induction xs) (auto split: sum.splits)

lemma hnu_over_kt_error: "hnu_over_kt K T \<nu> = Inl e \<Longrightarrow> e = ZeroDivisionError"
  by (auto simp: hnu_over_kt_def py_div_def split: if_splits)

lemma calculate_Svib_error: "calculate_Svib K fs T = Inl e \<Longrightarrow> e = ZeroDivisionError"
  by (auto simp: calculate_Svib_def Svib_term_def split: sum.splits
           dest!: comprehension_Inl_D hnu_over_kt_error)

lemma calculate_deltaU_error: "calculate_deltaU K fs T = Inl e \<Longrightarrow> e = ZeroDivisionError"
  by (auto simp: calculate_deltaU_def deltaU_term_def split: sum.splits
           dest!: comprehension_Inl_D hnu_over_kt_error)

lemma compute_outcome:
  "(\<exists>obj. compute K n a fs T s =
      (Inr obj, s\<lparr>stdout := stdout s @
         [Specimen n,
          Values (ZPE obj) (S_vib obj) (np_mul (Num T) (S_vib obj)) (deltaU obj),
          Total_correction (np_add (np_sub (ZPE obj) (np_mul (Num T) (S_vib obj))) (deltaU obj))]\<rparr>))
   \<or> compute K n a fs T s = (Inl ZeroDivisionError, s)"
  by (auto simp: compute_def Let_def split: sum.splits
           dest: calculate_Svib_error calculate_deltaU_error)

lemma check_elements_Inl:
  "check_elements xs = Inl e \<longleftrightarrow>
     (\<exists>v. find (\<lambda>v. \<not> isinstance_float v) xs = Some v \<and> e = TypeError (InvalidElement v))"
  by (induction xs) (auto split: pyval.splits sum.splits)

lemma check_elements_Inr_D: "check_elements xs = Inr fs \<Longrightarrow> xs = map PyFloat fs"
  by (induction xs arbitrary: fs) (auto split: pyval.splits sum.splits)

lemma find_map_append:
  "find P (map f xs @ rest) = (case find (\<lambda>x. P (f x)) xs of Some x \<Rightarrow> Some (f x) | None \<Rightarrow> find P rest)"
  by (induction xs) simp_all

lemma first_failing_elements:
  "find (fails s nm fr tp) (map Element_type xs @ rest) =
     (case find (\<lambda>v. \<not> isinstance_float v) xs of
        Some v \<Rightarrow> Some (Element_type v)
      | None \<Rightarrow> find (fails s nm fr tp) rest)"
  by (simp add: find_map_append)

lemma check_elements_cases:
  "(\<exists>v. find (\<lambda>v. \<not> isinstance_float v) xs = Some v
        \<and> check_elements xs = Inl (TypeError (InvalidElement v)))
   \<or> (\<exists>fs. find (\<lambda>v. \<not> isinstance_float v) xs = None
        \<and> xs = map PyFloat fs \<and> check_elements xs = Inr fs)"
proof (cases "check_elements xs")
  case (Inl e)
  then show ?thesis by (auto simp: check_elements_Inl)
next
  case (Inr fs)
  then have "xs = map PyFloat fs" by (rule check_elements_Inr_D)
  moreover have "find (\<lambda>v. \<not> isinstance_float v) (map PyFloat fs) = None"
    by (induction fs) simp_all
  ultimately show ?thesis using Inr by auto
qed

lemma init_list_outcome:
  assumes "n \<noteq> []"
  shows "init K (PyStr n) (PyList a) tp s
           = (Inl (ValueError (Literal ''The list of frequencies must contain at least one value.'')), s)
       \<or> (\<exists>v. init K (PyStr n) (PyList a) tp s = (Inl (TypeError (InvalidElement v)), s))
       \<or> init K (PyStr n) (PyList a) tp s
           = (Inl (TypeError (Literal ''Temperature must be a floating point value.'')), s)
       \<or> init K (PyStr n) (PyList a) tp s
           = (Inl (ValueError (Literal ''Temperature must be a positive value.'')), s)
       \<or> init K (PyStr n) (PyList a) tp s = (Inl ZeroDivisionError, s)
       \<or> (\<exists>obj s'. init K (PyStr n) (PyList a) tp s = (Inr obj, s'))"
proof -
  have c: "compute K n a fs T s = (Inl ZeroDivisionError, s)
           \<or> (\<exists>obj s'. compute K n a fs T s = (Inr obj, s'))" for fs T
    using compute_outcome by blast
  from check_elements_cases [of "heap s a"] show ?thesis
  proof
    assume "\<exists>v. find (\<lambda>v. \<not> isinstance_float v) (heap s a) = Some v
              \<and> check_elements (heap s a) = Inl (TypeError (InvalidElement v))"
    then show ?thesis using assms by (auto simp: init_def)
  next
    assume "\<exists>fs. find (\<lambda>v. \<not> isinstance_float v) (heap s a) = None
              \<and> heap s a = map PyFloat fs \<and> check_elements (heap s a) = Inr fs"
    then obtain fs where fs: "check_elements (heap s a) = Inr fs" by blast
    show ?thesis
    proof (cases tp)
      case (PyFloat T)
      then show ?thesis using assms fs c [of fs T] by (auto simp: init_def)
    qed (use assms fs in \<open>auto simp: init_def\<close>)
  qed
qed

subsection \<open>The exact sum is strictly monotone\<close>

lemma ZPE_exact_strictly_monotone:
  assumes "physical K" "i < length fs" "fs ! i < v"
  shows "\<exists>z z'. calculate_ZPE K fs = Num z \<and> calculate_ZPE K (fs[i := v]) = Num z' \<and> z < z'"
proof -
  let ?g = "\<lambda>\<nu>. planck_constant K * speed_of_light K * \<nu>"
  have hc: "0 < planck_constant K * speed_of_light K"
    using assms(1) by (simp add: physical_def)
  have "map ?g (fs[i := v]) = (map ?g fs)[i := ?g v]"
    by (simp add: map_update)
  then have "sum_list (map ?g (fs[i := v])) = sum_list (map ?g fs) + (?g v - map ?g fs ! i)"
    using assms(2) by (simp only: sum_list_update_real length_map)
  also have "map ?g fs ! i = ?g (fs ! i)"
    using assms(2) by simp
  finally have "sum_list (map ?g (fs[i := v])) = sum_list (map ?g fs) + (?g v - ?g (fs ! i))" .
  moreover have "?g (fs ! i) < ?g v"
    using hc assms(3) by (rule mult_strict_left_mono [rotated])
  ultimately have "0.5 * sum_list (map ?g fs) < 0.5 * sum_list (map ?g (fs[i := v]))"
    by linarith
  then show ?thesis
    by (simp only: calculate_ZPE_eq) blast
qed

text \<open>
  Which well-typed arguments raise \<open>ValueError\<close>, and what the others do: they return
  the object when the float product \<open>k\<^sub>B T\<close> is not zero, and raise \<open>ZeroDivisionError\<close>
  when it is.
\<close>

lemma value_error_iff:
  assumes "heap s a = map PyFloat fs"
  shows "((\<exists>e. fst (init K (PyStr n) (PyList a) (PyFloat T) s) = Inl e \<and> is_ValueError e)
            \<longleftrightarrow> (n = [] \<or> fs = [] \<or> T \<le> 0))
         \<and> (\<not> (n = [] \<or> fs = [] \<or> T \<le> 0) \<and> kT_nonzero K T \<longrightarrow>
              (\<exists>obj s'. init K (PyStr n) (PyList a) (PyFloat T) s = (Inr obj, s')))
         \<and> (\<not> (n = [] \<or> fs = [] \<or> T \<le> 0) \<and> \<not> kT_nonzero K T \<longrightarrow>
              init K (PyStr n) (PyList a) (PyFloat T) s = (Inl ZeroDivisionError, s))"
proof (cases "n = [] \<or> fs = [] \<or> T \<le> 0")
  case True
  then show ?thesis
    using assms by (auto simp: init_def check_elements_floats)
next
  case False
  then have v: "valid_request s n a fs T"
    using assms by (simp add: valid_request_def)
  show ?thesis
  proof (cases "kT_nonzero K T")
    case True
    from init_valid_request_Inr [OF True v] False True show ?thesis by auto
  next
    case nz: False
    from v have "fs \<noteq> []" by (simp add: valid_request_def)
    then obtain \<nu> rest where fs: "fs = \<nu> # rest" by (cases fs) auto
    have "calculate_Svib K fs T = Inl ZeroDivisionError"
      by (simp add: fs calculate_Svib_def Svib_term_def hnu_over_kt_Inl [OF nz])
    then have "compute K n a fs T s = (Inl ZeroDivisionError, s)"
      by (simp add: compute_def)
    with False nz show ?thesis by (simp add: init_valid_request [OF v])
  qed
qed

section \<open>The claims\<close>








text \<open>
  C4. As stated the claim fails: a tuple of floats is a sequence, and the constructor
  rejects it with the \<open>TypeError\<close> of the container check.
\<close>

theorem tuple_of_floats_counterexample:
  "init codata (PyStr ''O'') (PyTuple [PyFloat 1000, PyFloat 2000]) (PyFloat 300) (state_with [])
   = (Inl (TypeError (Literal ''Frequencies must be of type List.'')), state_with [])"
  by (simp add: init_def)

text \<open>
  C4, amended. With a name that passes its checks, the constructor raises the
  \<open>TypeError\<close> of the container check exactly when the frequency container is not a
  list object: the check is \<open>isinstance(frequencies, List)\<close>, which no other sequence
  type passes.
\<close>

theorem container_type_error_iff_not_list:
  assumes "n \<noteq> []"
  shows "fst (init K (PyStr n) fr tp s) = Inl (TypeError (Literal ''Frequencies must be of type List.''))
         \<longleftrightarrow> \<not> isinstance_List fr"
proof (cases fr)
  case (PyList a)
  from init_list_outcome [OF assms, of K a tp s] show ?thesis
    unfolding PyList by auto
qed (use assms in \<open>auto simp: init_def\<close>)

theorem container_type_error_iff_not_list_witness:
  "''O'' \<noteq> []
   \<and> fst (init codata (PyStr ''O'') (PyTuple [PyFloat 1000, PyFloat 2000]) (PyFloat 300) (state_with []))
       = Inl (TypeError (Literal ''Frequencies must be of type List.''))
   \<and> fst (init codata (PyStr ''O'') (PyList 0) (PyFloat 300) (state_with [PyFloat 1000, PyFloat 2000]))
       \<noteq> Inl (TypeError (Literal ''Frequencies must be of type List.''))"
  using container_type_error_iff_not_list
          [of "''O''" codata "PyTuple [PyFloat 1000, PyFloat 2000]" "PyFloat 300" "state_with []"]
        container_type_error_iff_not_list
          [of "''O''" codata "PyList 0" "PyFloat 300" "state_with [PyFloat 1000, PyFloat 2000]"]
  by simp

text \<open>
  C5. The constructor agrees with the ordered list of checks of section 4.1: when some
  check of the list fails, the constructor raises the error of the first one that fails
  and returns the state as it was (nothing printed, the heap untouched, and the result
  does not depend on the constants, which only the computation uses); when none fails,
  the arguments form a valid request and the constructor goes on to the computation.
\<close>

theorem checks_in_spec_order:
  "(first_failing s nm fr tp = Some c \<longrightarrow> init K nm fr tp s = (Inl (raised c), s))
   \<and> (first_failing s nm fr tp = None \<longrightarrow>
        (\<exists>n a fs T. nm = PyStr n \<and> fr = PyList a \<and> tp = PyFloat T \<and> valid_request s n a fs T
                  \<and> init K nm fr tp s = compute K n a fs T s))"
proof (cases nm)
  case (PyStr n)
  show ?thesis
  proof (cases fr)
    case (PyList a)
    from check_elements_cases [of "heap s a"] show ?thesis
    proof
      assume "\<exists>v. find (\<lambda>v. \<not> isinstance_float v) (heap s a) = Some v
                \<and> check_elements (heap s a) = Inl (TypeError (InvalidElement v))"
      then show ?thesis using PyStr PyList
        by (auto simp: first_failing_def checks_in_order_def init_def first_failing_elements)
    next
      assume "\<exists>fs. find (\<lambda>v. \<not> isinstance_float v) (heap s a) = None
                \<and> heap s a = map PyFloat fs \<and> check_elements (heap s a) = Inr fs"
      then show ?thesis using PyStr PyList
        by (cases tp)
           (auto simp: first_failing_def checks_in_order_def init_def first_failing_elements
                       valid_request_def)
    qed
  qed (use PyStr in \<open>auto simp: first_failing_def checks_in_order_def init_def\<close>)
qed (auto simp: first_failing_def checks_in_order_def init_def)

theorem checks_in_spec_order_witness:
  "first_failing (state_with [PyFloat 1, PyStr ''bad'', PyInt 2]) (PyStr ''O'') (PyList 0) (PyInt 0)
     = Some (Element_type (PyStr ''bad''))
   \<and> init codata (PyStr ''O'') (PyList 0) (PyInt 0) (state_with [PyFloat 1, PyStr ''bad'', PyInt 2])
     = (Inl (TypeError (InvalidElement (PyStr ''bad''))), state_with [PyFloat 1, PyStr ''bad'', PyInt 2])
   \<and> first_failing (state_with [PyFloat 1000]) (PyStr ''O'') (PyList 0) (PyFloat 300) = None
   \<and> init codata (PyStr ''O'') (PyList 0) (PyFloat 300) (state_with [PyFloat 1000])
     = compute codata ''O'' 0 [1000] 300 (state_with [PyFloat 1000])"
proof -
  have 1: "first_failing (state_with [PyFloat 1, PyStr ''bad'', PyInt 2]) (PyStr ''O'') (PyList 0) (PyInt 0)
             = Some (Element_type (PyStr ''bad''))"
    by (simp add: first_failing_def checks_in_order_def state_with_def)
  have 2: "first_failing (state_with [PyFloat 1000]) (PyStr ''O'') (PyList 0) (PyFloat 300) = None"
    by (simp add: first_failing_def checks_in_order_def state_with_def)
  show ?thesis
    using 1 2
      checks_in_spec_order [of "state_with [PyFloat 1, PyStr ''bad'', PyInt 2]" "PyStr ''O''" "PyList 0"
                               "PyInt 0" "Element_type (PyStr ''bad'')" codata]
      checks_in_spec_order [of "state_with [PyFloat 1000]" "PyStr ''O''" "PyList 0" "PyFloat 300" _ codata]
    by (auto simp: valid_request_def state_with_def)
qed

text \<open>
  C6. When the name is a string, the container a list of floats and the temperature a
  float, the constructor raises a \<open>ValueError\<close> exactly when the name is empty, the list
  is empty or the temperature is not positive. Otherwise it starts the computation;
  but it does not always return: \<open>5e-324\<close>, the smallest positive float, is a positive
  temperature, the float product \<open>k\<^sub>B T\<close> is \<open>0.0\<close> for it, and the division in
  \<open>hnu_over_kt\<close> raises \<open>ZeroDivisionError\<close>, which leaves the constructor.
\<close>

theorem smallest_temperature_raises:
  "valid_request (state_with [PyFloat 1000]) ''O'' 0 [1000] smallest_positive_binary64
   \<and> init codata_binary64 (PyStr ''O'') (PyList 0) (PyFloat smallest_positive_binary64)
          (state_with [PyFloat 1000])
       = (Inl ZeroDivisionError, state_with [PyFloat 1000])"
proof -
  let ?T = smallest_positive_binary64
  have "0 < ?T" by (simp add: smallest_positive_binary64_def)
  then have v: "valid_request (state_with [PyFloat 1000]) ''O'' 0 [1000] ?T"
    by (simp add: valid_request_def state_with_def)
  have "rounded (boltzmann_constant codata_binary64 * ?T) = of_int 0 * 2 powi (- 1074)"
    by (rule rounded_eqI [where k = "- 1088"])
       (simp_all add: codata_binary64_def smallest_positive_binary64_def)
  then have "\<not> kT_nonzero codata_binary64 ?T"
    by (simp add: kT_nonzero_def)
  then have "calculate_Svib codata_binary64 [1000] ?T = Inl ZeroDivisionError"
    by (simp add: calculate_Svib_def Svib_term_def hnu_over_kt_Inl)
  then have "compute codata_binary64 ''O'' 0 [1000] ?T (state_with [PyFloat 1000])
               = (Inl ZeroDivisionError, state_with [PyFloat 1000])"
    by (simp add: compute_def)
  then have "init codata_binary64 (PyStr ''O'') (PyList 0) (PyFloat ?T) (state_with [PyFloat 1000])
               = (Inl ZeroDivisionError, state_with [PyFloat 1000])"
    by (simp only: init_valid_request [OF v])
  with v show ?thesis ..
qed




text \<open>
  C8. With a valid name and a non-empty list, an integer among the frequencies or an
  integer temperature makes the constructor raise a \<open>TypeError\<close>; and on the list
  \<open>[100, "bad"]\<close> the element reported is the integer \<open>100\<close>, the first one.
\<close>

theorem integers_rejected:
  assumes "n \<noteq> []" "heap s a \<noteq> []" "(\<exists>k. PyInt k \<in> set (heap s a)) \<or> (\<exists>k. tp = PyInt k)"
  shows "(\<exists>e. init K (PyStr n) (PyList a) tp s = (Inl e, s) \<and> is_TypeError e)
         \<and> (heap s a = [PyInt 100, PyStr ''bad''] \<longrightarrow>
              init K (PyStr n) (PyList a) tp s = (Inl (TypeError (InvalidElement (PyInt 100))), s))"
proof
  from check_elements_cases [of "heap s a"]
  show "\<exists>e. init K (PyStr n) (PyList a) tp s = (Inl e, s) \<and> is_TypeError e"
  proof
    assume "\<exists>v. find (\<lambda>v. \<not> isinstance_float v) (heap s a) = Some v
              \<and> check_elements (heap s a) = Inl (TypeError (InvalidElement v))"
    then show ?thesis using assms(1,2) by (auto simp: init_def)
  next
    assume "\<exists>fs. find (\<lambda>v. \<not> isinstance_float v) (heap s a) = None
              \<and> heap s a = map PyFloat fs \<and> check_elements (heap s a) = Inr fs"
    then obtain fs where fs: "heap s a = map PyFloat fs" "check_elements (heap s a) = Inr fs"
      by blast
    from fs(1) have "\<not> (\<exists>k. PyInt k \<in> set (heap s a))" by auto
    with assms(3) obtain k where "tp = PyInt k" by blast
    then show ?thesis using assms(1,2) fs(2) by (simp add: init_def)
  qed
next
  show "heap s a = [PyInt 100, PyStr ''bad''] \<longrightarrow>
        init K (PyStr n) (PyList a) tp s = (Inl (TypeError (InvalidElement (PyInt 100))), s)"
    using assms(1) by (simp add: init_def)
qed

theorem integers_rejected_witness:
  "''O'' \<noteq> [] \<and> heap (state_with [PyInt 100, PyStr ''bad'']) 0 \<noteq> []
   \<and> PyInt 100 \<in> set (heap (state_with [PyInt 100, PyStr ''bad'']) 0)
   \<and> init codata (PyStr ''O'') (PyList 0) (PyFloat 300) (state_with [PyInt 100, PyStr ''bad''])
       = (Inl (TypeError (InvalidElement (PyInt 100))), state_with [PyInt 100, PyStr ''bad''])
   \<and> heap (state_with [PyFloat 1000]) 0 \<noteq> []
   \<and> (\<exists>e. init codata (PyStr ''O'') (PyList 0) (PyInt 300) (state_with [PyFloat 1000])
             = (Inl e, state_with [PyFloat 1000]) \<and> is_TypeError e)"
  using integers_rejected [of "''O''" "state_with [PyInt 100, PyStr ''bad'']" 0 "PyFloat 300" codata]
        integers_rejected [of "''O''" "state_with [PyFloat 1000]" 0 "PyInt 300" codata]
  by (simp add: state_with_def)

text \<open>
  C9. Whatever the arguments and whether the call returns or raises, the heap after the
  call is the heap before it: the list that the caller passed holds the same elements
  in the same order. The constructor and the static methods read the list and never
  assign to it.
\<close>

theorem frequency_list_unchanged:
  "heap (snd (init K nm fr tp s)) = heap s
   \<and> elements (snd (init K nm fr tp s)) fr = elements s fr"
proof -
  have c: "heap (snd (compute K n a fs T s)) = heap s" for n a fs T
    using compute_outcome [of K n a fs T s] by auto
  have "heap (snd (init K nm fr tp s)) = heap s"
    by (simp add: init_def c split: pyval.splits sum.splits)
  then show ?thesis by (cases fr) simp_all
qed

text \<open>
  C10. The static methods validate nothing. On the empty list \<open>calculate_ZPE\<close> returns
  \<open>0.0\<close>, and so do \<open>calculate_Svib\<close> and \<open>calculate_deltaU\<close> at every temperature,
  zero included: no element is evaluated, so nothing can raise.
\<close>

theorem calculators_on_empty_list:
  "calculate_ZPE K [] = Num 0
   \<and> calculate_ZPE_binary64 K [] = Finite 0
   \<and> calculate_Svib K [] T = Inr (Num 0)
   \<and> calculate_deltaU K [] T = Inr (Num 0)"
  by (simp add: calculate_ZPE_def calculate_Svib_def calculate_deltaU_def np_sum_def
                calculate_ZPE_binary64_def sum64_def round_binary64_def)

end
